theory Spec2Isabelle
  imports Main
begin

section \<open>Strings and built-ins of the host language\<close>

text \<open>
  The screens are JavaScript. A JavaScript string is a sequence of code units; here a
  string is a \<^typ>\<open>string\<close> whose characters stand for the code units U+0000 to U+00FF.
  The built-ins the screens call (\<^verbatim>\<open>RegExp.prototype.test\<close>,
  \<^verbatim>\<open>String.prototype.toLowerCase\<close>, \<^verbatim>\<open>includes\<close>, \<^verbatim>\<open>localeCompare\<close>,
  \<^verbatim>\<open>Array.prototype.filter\<close> and \<^verbatim>\<open>sort\<close>) are modelled on that range.
\<close>

subsection \<open>Regular expressions\<close>

text \<open>
  A character class is a literal character or the negated class \<^verbatim>\<open>[^\s@]\<close>. The escape
  \<^verbatim>\<open>\s\<close> matches white space and line terminators: below U+0100 these are U+0009 to
  U+000D, U+0020 and U+00A0.
\<close>

definition isWhiteSpace :: "char \<Rightarrow> bool" where
  "isWhiteSpace c =
     (let n = (of_char c :: nat) in (9 \<le> n \<and> n \<le> 13) \<or> n = 32 \<or> n = 160)"

datatype cclass = Lit char | NotSpaceAt

fun inClass :: "cclass \<Rightarrow> char \<Rightarrow> bool" where
  "inClass (Lit d) c = (c = d)"
| "inClass NotSpaceAt c = (\<not> isWhiteSpace c \<and> c \<noteq> CHR ''@'')"

datatype regex =
    Fail
  | Empty
  | Class cclass
  | Alt regex regex
  | Seq regex regex
  | Star regex

definition Plus :: "regex \<Rightarrow> regex" where
  "Plus r = Seq r (Star r)"

fun nullable :: "regex \<Rightarrow> bool" where
  "nullable Fail = False"
| "nullable Empty = True"
| "nullable (Class k) = False"
| "nullable (Alt r s) = (nullable r \<or> nullable s)"
| "nullable (Seq r s) = (nullable r \<and> nullable s)"
| "nullable (Star r) = True"

fun deriv :: "char \<Rightarrow> regex \<Rightarrow> regex" where
  "deriv c Fail = Fail"
| "deriv c Empty = Fail"
| "deriv c (Class k) = (if inClass k c then Empty else Fail)"
| "deriv c (Alt r s) = Alt (deriv c r) (deriv c s)"
| "deriv c (Seq r s) =
     (if nullable r then Alt (Seq (deriv c r) s) (deriv c s) else Seq (deriv c r) s)"
| "deriv c (Star r) = Seq (deriv c r) (Star r)"

text \<open>
  \<^verbatim>\<open>/^r$/.test(s)\<close> without flags: the whole of \<open>s\<close> has to match \<open>r\<close>.
\<close>

fun test :: "regex \<Rightarrow> string \<Rightarrow> bool" where
  "test r [] = nullable r"
| "test r (c # cs) = test (deriv c r) cs"

text \<open>The words matched by a regular expression, for reasoning about \<^const>\<open>test\<close>.\<close>

inductive_set star :: "string set \<Rightarrow> string set" for A :: "string set" where
  star_nil: "[] \<in> star A"
| star_app: "u \<in> A \<Longrightarrow> v \<in> star A \<Longrightarrow> u @ v \<in> star A"

fun lang :: "regex \<Rightarrow> string set" where
  "lang Fail = {}"
| "lang Empty = {[]}"
| "lang (Class k) = {[c] | c. inClass k c}"
| "lang (Alt r s) = lang r \<union> lang s"
| "lang (Seq r s) = {u @ v | u v. u \<in> lang r \<and> v \<in> lang s}"
| "lang (Star r) = star (lang r)"

section \<open>The session and what a handler does to the world\<close>

text \<open>
  \<^verbatim>\<open>UserContext\<close> holds the session user name, \<^verbatim>\<open>null\<close> until somebody signs in.
  A handler can set it, show a notice, and ask the navigator for a route. The native
  \<^verbatim>\<open>Alert.alert\<close> takes buttons whose \<^verbatim>\<open>onPress\<close> runs later, when the button is pressed.
\<close>

datatype nav =
    Navigate string "string option"
  | Reset nat "(string \<times> string) list"

datatype button = Button string nav

datatype notice =
    WindowAlert string
  | AlertAlert string string "button list"

record world =
  contextUsername :: "string option"
  notices :: "notice list"
  navigation :: "nav list"

definition initialWorld :: world where
  "initialWorld = \<lparr> contextUsername = None, notices = [], navigation = [] \<rparr>"

definition setContextUsername :: "string \<Rightarrow> world \<Rightarrow> world" where
  "setContextUsername u w = w\<lparr> contextUsername := Some u \<rparr>"

definition window_alert :: "string \<Rightarrow> world \<Rightarrow> world" where
  "window_alert msg w = w\<lparr> notices := notices w @ [WindowAlert msg] \<rparr>"

definition Alert_alert :: "string \<Rightarrow> string \<Rightarrow> button list \<Rightarrow> world \<Rightarrow> world" where
  "Alert_alert title msg bs w = w\<lparr> notices := notices w @ [AlertAlert title msg bs] \<rparr>"

definition navigate :: "string \<Rightarrow> string option \<Rightarrow> world \<Rightarrow> world" where
  "navigate route u w = w\<lparr> navigation := navigation w @ [Navigate route u] \<rparr>"

definition reset :: "nat \<Rightarrow> (string \<times> string) list \<Rightarrow> world \<Rightarrow> world" where
  "reset i routes w = w\<lparr> navigation := navigation w @ [Reset i routes] \<rparr>"

fun runNav :: "nav \<Rightarrow> world \<Rightarrow> world" where
  "runNav n w = w\<lparr> navigation := navigation w @ [n] \<rparr>"

text \<open>Pressing a button of the notice on screen (the last one shown) runs its \<^verbatim>\<open>onPress\<close>.\<close>

fun pressIn :: "string \<Rightarrow> button list \<Rightarrow> world \<Rightarrow> world" where
  "pressIn t [] w = w"
| "pressIn t (Button t' n # bs) w = (if t = t' then runNav n w else pressIn t bs w)"

definition pressButton :: "string \<Rightarrow> world \<Rightarrow> world" where
  "pressButton t w =
     (if notices w = [] then w
      else case last (notices w) of
             WindowAlert m \<Rightarrow> w
           | AlertAlert title m bs \<Rightarrow> pressIn t bs w)"

section \<open>Sign-up screen\<close>

text \<open>
  The form state of \<^verbatim>\<open>SignUpScreen\<close>. \<^verbatim>\<open>handleSignUp\<close> returns nothing; each of its
  early returns follows a notice, and the model names the return taken:
  \<open>MissingField\<close> after ``Missing Info'', \<open>InvalidEmail\<close> after ``Invalid Email'',
  \<open>TermsNotAccepted\<close> after ``Terms Required''.
\<close>

record signUpForm =
  username :: string
  email :: string
  password :: string
  agree :: bool

datatype signUpError = MissingField | InvalidEmail | TermsNotAccepted

definition emailRegex :: regex where
  "emailRegex =
     Seq (Plus (Class NotSpaceAt))
       (Seq (Class (Lit (CHR ''@'')))
         (Seq (Plus (Class NotSpaceAt))
           (Seq (Class (Lit (CHR ''.'')))
             (Plus (Class NotSpaceAt)))))"

text \<open>
  The shape the pattern is meant to describe, in words: one \<open>@\<close> between a local part
  and a domain, the domain ending in a dot and a top-level part, the three parts not
  empty and free of white space and of \<open>@\<close>.
\<close>

definition email_shape :: "string \<Rightarrow> bool" where
  "email_shape e =
     (\<exists>l d t. e = l @ ''@'' @ d @ ''.'' @ t \<and> l \<noteq> [] \<and> d \<noteq> [] \<and> t \<noteq> [] \<and>
        list_all (\<lambda>c. \<not> isWhiteSpace c \<and> c \<noteq> CHR ''@'') (l @ d @ t))"

definition handleSignUp :: "string \<Rightarrow> signUpForm \<Rightarrow> world \<Rightarrow> (signUpError + unit) \<times> world" where
  "handleSignUp os f w =
     (if username f = [] \<or> email f = [] \<or> password f = [] then
        (Inl MissingField,
         if os = ''web'' then window_alert ''Missing Info: Please fill out all fields.'' w
         else Alert_alert ''Missing Info'' ''Please fill out all fields.'' [] w)
      else if \<not> test emailRegex (email f) then
        (Inl InvalidEmail,
         if os = ''web'' then window_alert ''Invalid Email: Please enter a valid email address.'' w
         else Alert_alert ''Invalid Email'' ''Please enter a valid email address.'' [] w)
      else if \<not> agree f then
        (Inl TermsNotAccepted,
         if os = ''web'' then window_alert ''Terms Required: You must agree to the terms & policy.'' w
         else Alert_alert ''Terms Required'' ''You must agree to the terms & policy.'' [] w)
      else if os = ''web'' then
        (Inr (),
         navigate ''Dashboard'' (Some (username f))
           (window_alert ''You have successfully signed up!'' w))
      else
        (Inr (),
         Alert_alert ''Signed Up'' ''You have successfully signed up!''
           [Button ''OK'' (Navigate ''Dashboard'' (Some (username f)))]
           (setContextUsername (username f) w)))"

section \<open>Login screen\<close>

datatype loginError = LoginError

definition alert :: "string \<Rightarrow> string \<Rightarrow> string \<Rightarrow> world \<Rightarrow> world" where
  "alert os title message w =
     (if os = ''web'' then
        window_alert (if message \<noteq> [] then title @ [CHR 0x0A] @ message else title) w
      else Alert_alert title message [] w)"

definition handleLogin :: "string \<Rightarrow> string \<Rightarrow> string \<Rightarrow> world \<Rightarrow> (loginError + unit) \<times> world" where
  "handleLogin os username' password' w =
     (if username' = [] \<or> password' = [] then
        (Inl LoginError,
         alert os ''Login Error''
           ''Please fill out both Username and Password fields before logging in.'' w)
      else
        (Inr (),
         reset 0 [(''Dashboard'', username')] (setContextUsername username' w)))"

section \<open>Selection screen\<close>

subsection \<open>String built-ins\<close>

text \<open>
  \<^verbatim>\<open>toLowerCase\<close> below U+0100 moves A to Z and the capital letters U+00C0 to U+00DE
  (but the multiplication sign U+00D7) up by 32 and leaves every other code unit alone.
\<close>

definition toLowerCaseUnit :: "char \<Rightarrow> char" where
  "toLowerCaseUnit c =
     (let n = (of_char c :: nat) in
      if (65 \<le> n \<and> n \<le> 90) \<or> (192 \<le> n \<and> n \<le> 222 \<and> n \<noteq> 215)
      then char_of (n + 32) else c)"

definition toLowerCase :: "string \<Rightarrow> string" where
  "toLowerCase s = map toLowerCaseUnit s"

fun startsWith :: "string \<Rightarrow> string \<Rightarrow> bool" where
  "startsWith s [] = True"
| "startsWith [] (q # qs) = False"
| "startsWith (c # cs) (q # qs) = (c = q \<and> startsWith cs qs)"

fun includes' :: "string \<Rightarrow> string \<Rightarrow> bool" where
  "includes' [] q = (q = [])"
| "includes' (c # cs) q = (startsWith (c # cs) q \<or> includes' cs q)"

text \<open>
  \<^verbatim>\<open>localeCompare\<close> is defined by the host's collation. The model is the root collation
  on words of ASCII letters and spaces, which the names of the catalog are: the words
  are compared letter by letter without regard to case, the space before every letter,
  a prefix before its extensions; words that differ in case only are ordered by the
  first difference, the small letter first. The result is \<open>-1\<close>, \<open>0\<close> or \<open>1\<close>.
\<close>

fun compareUnits :: "string \<Rightarrow> string \<Rightarrow> int" where
  "compareUnits [] [] = 0"
| "compareUnits [] (b # bs) = - 1"
| "compareUnits (a # as) [] = 1"
| "compareUnits (a # as) (b # bs) =
     (if a = b then compareUnits as bs
      else if (of_char a :: nat) < of_char b then - 1 else 1)"

definition localeCompare :: "string \<Rightarrow> string \<Rightarrow> int" where
  "localeCompare a b =
     (let p = compareUnits (toLowerCase a) (toLowerCase b)
      in if p \<noteq> 0 then p else - compareUnits a b)"

subsection \<open>Numbers returned by the comparator\<close>

text \<open>
  The comparator subtracts \<^verbatim>\<open>popular\<close> flags. A flag is \<^verbatim>\<open>true\<close>, \<^verbatim>\<open>false\<close> or absent
  (\<^verbatim>\<open>undefined\<close>); as numbers these are 1, 0 and \<^verbatim>\<open>NaN\<close>, and a difference with
  \<^verbatim>\<open>NaN\<close> is \<^verbatim>\<open>NaN\<close>.
\<close>

datatype number = NaN | Number int

fun ToNumber :: "bool option \<Rightarrow> number" where
  "ToNumber None = NaN"
| "ToNumber (Some True) = Number 1"
| "ToNumber (Some False) = Number 0"

fun subtract :: "number \<Rightarrow> number \<Rightarrow> number" where
  "subtract (Number x) (Number y) = Number (x - y)"
| "subtract x y = NaN"

subsection \<open>Arrays in the store\<close>

text \<open>
  An entry of the catalog. \<^verbatim>\<open>image\<close> is the asset required, named by its path;
  \<^verbatim>\<open>popular\<close> and \<^verbatim>\<open>placeholder\<close> are absent from some entries.
\<close>

record lettuce =
  id' :: string
  name :: string
  image' :: string
  popular :: "bool option"
  placeholder :: "bool option"

text \<open>
  Arrays are objects: a variable holds a reference, \<^verbatim>\<open>filter\<close> allocates a new array and
  \<^verbatim>\<open>sort\<close> reorders the array it is called on, in place, and returns the same reference.
  The store maps references to the contents of arrays. Nothing here writes to an entry,
  so an array is the list of its entries.
\<close>

record store =
  arrays :: "nat \<Rightarrow> lettuce list option"
  nextRef :: nat

definition Array_filter :: "(lettuce \<Rightarrow> bool) \<Rightarrow> nat \<Rightarrow> store \<Rightarrow> (nat \<times> store) option" where
  "Array_filter p r h =
     (case arrays h r of
        None \<Rightarrow> None
      | Some xs \<Rightarrow>
          Some (nextRef h,
                h\<lparr> arrays := (arrays h)(nextRef h \<mapsto> filter p xs),
                   nextRef := Suc (nextRef h) \<rparr>))"

text \<open>
  \<^verbatim>\<open>sort\<close> calls the comparator and reads \<^verbatim>\<open>NaN\<close> as \<open>0\<close>. The order it produces is
  fixed by the language when the comparator is consistent: sorted, and stable. The model
  is a stable insertion sort. (With a comparator that is not consistent the language
  leaves the order to the engine.)
\<close>

definition SortCompare :: "('a \<Rightarrow> 'a \<Rightarrow> number) \<Rightarrow> 'a \<Rightarrow> 'a \<Rightarrow> int" where
  "SortCompare comparefn x y = (case comparefn x y of NaN \<Rightarrow> 0 | Number v \<Rightarrow> v)"

fun insertSorted :: "('a \<Rightarrow> 'a \<Rightarrow> number) \<Rightarrow> 'a \<Rightarrow> 'a list \<Rightarrow> 'a list" where
  "insertSorted comparefn x [] = [x]"
| "insertSorted comparefn x (y # ys) =
     (if SortCompare comparefn x y \<le> 0 then x # y # ys
      else y # insertSorted comparefn x ys)"

definition sortBy :: "('a \<Rightarrow> 'a \<Rightarrow> number) \<Rightarrow> 'a list \<Rightarrow> 'a list" where
  "sortBy comparefn xs = foldr (insertSorted comparefn) xs []"

definition Array_sort :: "(lettuce \<Rightarrow> lettuce \<Rightarrow> number) \<Rightarrow> nat \<Rightarrow> store \<Rightarrow> (nat \<times> store) option" where
  "Array_sort comparefn r h =
     (case arrays h r of
        None \<Rightarrow> None
      | Some xs \<Rightarrow> Some (r, h\<lparr> arrays := (arrays h)(r \<mapsto> sortBy comparefn xs) \<rparr>))"

subsection \<open>The catalog and its filtered view\<close>

definition romaine :: lettuce where
  "romaine =
     \<lparr> id' = ''1'', name = ''Romaine'', image' = ''../assets/lettuce_romaine.png'',
       popular = Some True, placeholder = None \<rparr>"

definition butterhead :: lettuce where
  "butterhead =
     \<lparr> id' = ''2'', name = ''Butterhead'', image' = ''../assets/lettuce_butterhead.png'',
       popular = Some False, placeholder = None \<rparr>"

definition oakLeaf :: lettuce where
  "oakLeaf =
     \<lparr> id' = ''3'', name = ''Oak Leaf'', image' = ''../assets/lettuce_oakleaf.png'',
       popular = Some True, placeholder = None \<rparr>"

definition cos' :: lettuce where
  "cos' =
     \<lparr> id' = ''4'', name = ''Cos'', image' = ''../assets/lettuce_cos.png'',
       popular = Some False, placeholder = None \<rparr>"

definition comingSoon5 :: lettuce where
  "comingSoon5 =
     \<lparr> id' = ''5'', name = ''Coming Soon'', image' = ''../assets/coming.png'',
       popular = None, placeholder = Some True \<rparr>"

definition comingSoon6 :: lettuce where
  "comingSoon6 =
     \<lparr> id' = ''6'', name = ''Coming Soon'', image' = ''../assets/coming1.png'',
       popular = None, placeholder = Some True \<rparr>"

definition originalLettuces :: "lettuce list" where
  "originalLettuces = [romaine, butterhead, oakLeaf, cos', comingSoon5, comingSoon6]"

text \<open>
  Loading the module allocates the catalog; \<open>originalLettuces_ref\<close> is the reference the
  constant \<^verbatim>\<open>originalLettuces\<close> holds. The store is given for any contents of the catalog.
\<close>

definition originalLettuces_ref :: nat where
  "originalLettuces_ref = 0"

definition moduleStore :: "lettuce list \<Rightarrow> store" where
  "moduleStore catalog =
     \<lparr> arrays = Map.empty(originalLettuces_ref \<mapsto> catalog),
       nextRef = Suc originalLettuces_ref \<rparr>"

text \<open>The state of \<^verbatim>\<open>SelectionScreen\<close>: the search text and the filter mode.\<close>

record selectionScreen =
  searchQuery :: string
  filter' :: string

definition initialSelectionScreen :: selectionScreen where
  "initialSelectionScreen = \<lparr> searchQuery = [], filter' = ''all'' \<rparr>"

definition compareFn :: "string \<Rightarrow> lettuce \<Rightarrow> lettuce \<Rightarrow> number" where
  "compareFn mode a b =
     (if mode = ''az'' then Number (localeCompare (name a) (name b))
      else if mode = ''popular'' then subtract (ToNumber (popular b)) (ToNumber (popular a))
      else Number 0)"

definition filteredLettuces :: "selectionScreen \<Rightarrow> store \<Rightarrow> (nat \<times> store) option" where
  "filteredLettuces st h =
     (case Array_filter
             (\<lambda>item. includes' (toLowerCase (name item)) (toLowerCase (searchQuery st)))
             originalLettuces_ref h of
        None \<Rightarrow> None
      | Some (r, h') \<Rightarrow> Array_sort (compareFn (filter' st)) r h')"

text \<open>The entries of the view a render computes, read from the store it leaves.\<close>

definition view :: "(nat \<times> store) option \<Rightarrow> lettuce list option" where
  "view res = (case res of None \<Rightarrow> None | Some (r, h) \<Rightarrow> arrays h r)"

text \<open>
  The component renders again whenever its state changes, and each render computes the
  view anew. A history of renders is the list of the states rendered.
\<close>

fun renders :: "selectionScreen list \<Rightarrow> store \<Rightarrow> store" where
  "renders [] h = h"
| "renders (st # sts) h =
     renders sts (case filteredLettuces st h of None \<Rightarrow> h | Some (r, h') \<Rightarrow> h')"

definition handleFilterPress :: "selectionScreen \<Rightarrow> selectionScreen" where
  "handleFilterPress st =
     (let next = (if filter' st = ''all'' then ''az''
                  else if filter' st = ''az'' then ''popular'' else ''all'')
      in st\<lparr> filter' := next \<rparr>)"

section \<open>Toggles\<close>


record profileScreen =
  user :: string
  mail :: string
  pass :: string
  agreeEthics :: bool
  notificationsEnabled :: bool



































section \<open>The matcher decides the words of a regular expression\<close>

lemma nullable_lang: "nullable r \<longleftrightarrow> [] \<in> lang r"
  by (induction r) (auto intro: star.star_nil)

lemma star_cons_fwd:
  assumes "x \<in> star A" and "x = c # s"
  shows "\<exists>u v. s = u @ v \<and> c # u \<in> A \<and> v \<in> star A"
  using assms
proof (induction arbitrary: s rule: star.induct)
  case star_nil
  then show ?case by simp
next
  case (star_app u v)
  show ?case
  proof (cases u)
    case Nil
    with star_app show ?thesis by simp
  next
    case (Cons a u')
    with star_app.prems have "a = c" and "s = u' @ v" by simp_all
    with Cons star_app.hyps show ?thesis by blast
  qed
qed

lemma star_cons: "c # s \<in> star A \<longleftrightarrow> (\<exists>u v. s = u @ v \<and> c # u \<in> A \<and> v \<in> star A)"
proof
  assume "c # s \<in> star A"
  then show "\<exists>u v. s = u @ v \<and> c # u \<in> A \<and> v \<in> star A"
    by (rule star_cons_fwd) simp
next
  assume "\<exists>u v. s = u @ v \<and> c # u \<in> A \<and> v \<in> star A"
  then obtain u v where "s = u @ v" "c # u \<in> A" "v \<in> star A" by blast
  then show "c # s \<in> star A"
    using star.star_app [of "c # u" A v] by simp
qed

lemma deriv_lang: "s \<in> lang (deriv c r) \<longleftrightarrow> c # s \<in> lang r"
proof (induction r arbitrary: s)
  case (Seq r1 r2)
  have "c # s \<in> lang (Seq r1 r2) \<longleftrightarrow>
        ([] \<in> lang r1 \<and> c # s \<in> lang r2) \<or> (\<exists>u v. s = u @ v \<and> c # u \<in> lang r1 \<and> v \<in> lang r2)"
    by (auto simp: Cons_eq_append_conv)
  with Seq show ?case by (auto simp: nullable_lang)
next
  case (Star r)
  then show ?case by (auto simp: star_cons)
qed auto

lemma test_lang: "test r s \<longleftrightarrow> s \<in> lang r"
  by (induction s arbitrary: r) (simp_all add: nullable_lang deriv_lang)

lemma star_class: "s \<in> star {[c] | c. P c} \<longleftrightarrow> list_all P s"
proof
  assume "s \<in> star {[c] | c. P c}"
  then show "list_all P s" by (induction rule: star.induct) auto
next
  assume "list_all P s"
  then show "s \<in> star {[c] | c. P c}"
  proof (induction s)
    case Nil
    show ?case by (rule star.star_nil)
  next
    case (Cons a s)
    then have "[a] \<in> {[c] | c. P c}" and "s \<in> star {[c] | c. P c}" by auto
    then have "[a] @ s \<in> star {[c] | c. P c}" by (rule star.star_app)
    then show ?case by simp
  qed
qed

lemma lang_Plus_Class: "s \<in> lang (Plus (Class k)) \<longleftrightarrow> s \<noteq> [] \<and> list_all (inClass k) s"
proof -
  have "s \<in> lang (Plus (Class k)) \<longleftrightarrow> (\<exists>c v. s = c # v \<and> inClass k c \<and> list_all (inClass k) v)"
  proof
    assume "s \<in> lang (Plus (Class k))"
    then show "\<exists>c v. s = c # v \<and> inClass k c \<and> list_all (inClass k) v"
      by (auto simp: Plus_def star_class)
  next
    assume "\<exists>c v. s = c # v \<and> inClass k c \<and> list_all (inClass k) v"
    then obtain c v where "s = [c] @ v" "inClass k c" "list_all (inClass k) v" by auto
    then show "s \<in> lang (Plus (Class k))"
      unfolding Plus_def lang.simps star_class by blast
  qed
  also have "\<dots> \<longleftrightarrow> s \<noteq> [] \<and> list_all (inClass k) s"
    by (cases s) auto
  finally show ?thesis .
qed

lemma lang_Lit: "s \<in> lang (Class (Lit d)) \<longleftrightarrow> s = [d]"
  by auto

lemma NotSpaceAt_eq: "inClass NotSpaceAt = (\<lambda>c. \<not> isWhiteSpace c \<and> c \<noteq> CHR ''@'')"
  by (rule ext) simp

lemma emailRegex_shape: "test emailRegex e \<longleftrightarrow> email_shape e"
proof -
  have "test emailRegex e \<longleftrightarrow>
        (\<exists>l r1. e = l @ r1 \<and> l \<in> lang (Plus (Class NotSpaceAt)) \<and>
          (\<exists>a r2. r1 = a @ r2 \<and> a \<in> lang (Class (Lit (CHR ''@''))) \<and>
            (\<exists>d r3. r2 = d @ r3 \<and> d \<in> lang (Plus (Class NotSpaceAt)) \<and>
              (\<exists>p t. r3 = p @ t \<and> p \<in> lang (Class (Lit (CHR ''.''))) \<and>
                 t \<in> lang (Plus (Class NotSpaceAt))))))"
    unfolding test_lang emailRegex_def lang.simps(5) by blast
  also have "\<dots> \<longleftrightarrow> email_shape e"
  proof
    assume "\<exists>l r1. e = l @ r1 \<and> l \<in> lang (Plus (Class NotSpaceAt)) \<and>
          (\<exists>a r2. r1 = a @ r2 \<and> a \<in> lang (Class (Lit (CHR ''@''))) \<and>
            (\<exists>d r3. r2 = d @ r3 \<and> d \<in> lang (Plus (Class NotSpaceAt)) \<and>
              (\<exists>p t. r3 = p @ t \<and> p \<in> lang (Class (Lit (CHR ''.''))) \<and>
                 t \<in> lang (Plus (Class NotSpaceAt)))))"
    then show "email_shape e"
      unfolding lang_Plus_Class lang_Lit email_shape_def NotSpaceAt_eq by auto
  next
    assume "email_shape e"
    then obtain l d t where
      e: "e = l @ ''@'' @ d @ ''.'' @ t" and
      l: "l \<in> lang (Plus (Class NotSpaceAt))" and
      d: "d \<in> lang (Plus (Class NotSpaceAt))" and
      t: "t \<in> lang (Plus (Class NotSpaceAt))"
      unfolding lang_Plus_Class email_shape_def NotSpaceAt_eq by auto
    have a: "''@'' \<in> lang (Class (Lit (CHR ''@'')))" and p: "''.'' \<in> lang (Class (Lit (CHR ''.'')))"
      by simp_all
    from e l d t a p show "\<exists>l r1. e = l @ r1 \<and> l \<in> lang (Plus (Class NotSpaceAt)) \<and>
          (\<exists>a r2. r1 = a @ r2 \<and> a \<in> lang (Class (Lit (CHR ''@''))) \<and>
            (\<exists>d r3. r2 = d @ r3 \<and> d \<in> lang (Plus (Class NotSpaceAt)) \<and>
              (\<exists>p t. r3 = p @ t \<and> p \<in> lang (Class (Lit (CHR ''.''))) \<and>
                 t \<in> lang (Plus (Class NotSpaceAt)))))"
      by blast
  qed
  finally show ?thesis .
qed

section \<open>Sign-up and login\<close>

lemmas effect_defs =
  window_alert_def Alert_alert_def navigate_def reset_def setContextUsername_def alert_def

lemmas regex_eval = emailRegex_def Plus_def isWhiteSpace_def

text \<open>
  Claim C1, as the code has it. When the three fields are filled in, the email matches
  the pattern and the terms are agreed to, \<^verbatim>\<open>handleSignUp\<close> succeeds and shows one
  notice, that of the success. On the web this is the browser alert ``You have
  successfully signed up!''; the route \<^verbatim>\<open>Dashboard\<close> is asked for with the submitted
  user name as parameter, and the session user name stays as it was. On the other
  platforms it is the alert ``Signed Up'' with the one button OK; the session user name
  is set to the submitted one, and the route \<^verbatim>\<open>Dashboard\<close>, with the same parameter, is
  asked for when that button is pressed, and not before.
\<close>

theorem signUp_valid:
  assumes "username f \<noteq> []" "email f \<noteq> []" "password f \<noteq> []"
    and "test emailRegex (email f)" and "agree f"
  shows "fst (handleSignUp os f w) = Inr ()
       \<and> notices (snd (handleSignUp os f w)) = notices w @
           [if os = ''web'' then WindowAlert ''You have successfully signed up!''
            else AlertAlert ''Signed Up'' ''You have successfully signed up!''
                   [Button ''OK'' (Navigate ''Dashboard'' (Some (username f)))]]
       \<and> contextUsername (snd (handleSignUp os f w)) =
           (if os = ''web'' then contextUsername w else Some (username f))
       \<and> navigation (snd (handleSignUp os f w)) =
           (if os = ''web'' then navigation w @ [Navigate ''Dashboard'' (Some (username f))]
            else navigation w)
       \<and> navigation (pressButton ''OK'' (snd (handleSignUp os f w))) =
           navigation w @ [Navigate ''Dashboard'' (Some (username f))]
       \<and> contextUsername (pressButton ''OK'' (snd (handleSignUp os f w))) =
           (if os = ''web'' then contextUsername w else Some (username f))"
  using assms by (simp add: handleSignUp_def effect_defs pressButton_def)

theorem signUp_valid_witness:
  "test emailRegex ''ann@farm.org''
   \<and> handleSignUp ''web'' \<lparr>username = ''ann'', email = ''ann@farm.org'', password = ''pw'', agree = True\<rparr> initialWorld
      = (Inr (), \<lparr>contextUsername = None, notices = [WindowAlert ''You have successfully signed up!''],
                   navigation = [Navigate ''Dashboard'' (Some ''ann'')]\<rparr>)
   \<and> notices (snd (handleSignUp ''ios'' \<lparr>username = ''ann'', email = ''ann@farm.org'', password = ''pw'', agree = True\<rparr> initialWorld))
      = [AlertAlert ''Signed Up'' ''You have successfully signed up!''
           [Button ''OK'' (Navigate ''Dashboard'' (Some ''ann''))]]
   \<and> contextUsername (snd (handleSignUp ''ios'' \<lparr>username = ''ann'', email = ''ann@farm.org'', password = ''pw'', agree = True\<rparr> initialWorld))
      = Some ''ann''
   \<and> navigation (snd (handleSignUp ''ios'' \<lparr>username = ''ann'', email = ''ann@farm.org'', password = ''pw'', agree = True\<rparr> initialWorld))
      = []
   \<and> navigation (pressButton ''OK'' (snd (handleSignUp ''ios'' \<lparr>username = ''ann'', email = ''ann@farm.org'', password = ''pw'', agree = True\<rparr> initialWorld)))
      = [Navigate ''Dashboard'' (Some ''ann'')]"
proof -
  let ?f = "\<lparr>username = ''ann'', email = ''ann@farm.org'', password = ''pw'', agree = True\<rparr>"
  have e: "test emailRegex ''ann@farm.org''" by (simp add: regex_eval)
  have "fst (handleSignUp ''ios'' ?f initialWorld) = Inr ()
       \<and> notices (snd (handleSignUp ''ios'' ?f initialWorld)) = notices initialWorld @
           [if ''ios'' = ''web'' then WindowAlert ''You have successfully signed up!''
            else AlertAlert ''Signed Up'' ''You have successfully signed up!''
                   [Button ''OK'' (Navigate ''Dashboard'' (Some (username ?f)))]]
       \<and> contextUsername (snd (handleSignUp ''ios'' ?f initialWorld)) =
           (if ''ios'' = ''web'' then contextUsername initialWorld else Some (username ?f))
       \<and> navigation (snd (handleSignUp ''ios'' ?f initialWorld)) =
           (if ''ios'' = ''web'' then navigation initialWorld @ [Navigate ''Dashboard'' (Some (username ?f))]
            else navigation initialWorld)
       \<and> navigation (pressButton ''OK'' (snd (handleSignUp ''ios'' ?f initialWorld))) =
           navigation initialWorld @ [Navigate ''Dashboard'' (Some (username ?f))]
       \<and> contextUsername (pressButton ''OK'' (snd (handleSignUp ''ios'' ?f initialWorld))) =
           (if ''ios'' = ''web'' then contextUsername initialWorld else Some (username ?f))"
    by (rule signUp_valid) (simp_all add: regex_eval)
  then have ios: "notices (snd (handleSignUp ''ios'' ?f initialWorld))
        = [AlertAlert ''Signed Up'' ''You have successfully signed up!''
             [Button ''OK'' (Navigate ''Dashboard'' (Some ''ann''))]]
      \<and> contextUsername (snd (handleSignUp ''ios'' ?f initialWorld)) = Some ''ann''
      \<and> navigation (snd (handleSignUp ''ios'' ?f initialWorld)) = []
      \<and> navigation (pressButton ''OK'' (snd (handleSignUp ''ios'' ?f initialWorld))) = [Navigate ''Dashboard'' (Some ''ann'')]"
    by (simp add: initialWorld_def)
  have web: "handleSignUp ''web'' ?f initialWorld
      = (Inr (), \<lparr>contextUsername = None, notices = [WindowAlert ''You have successfully signed up!''],
                   navigation = [Navigate ''Dashboard'' (Some ''ann'')]\<rparr>)"
    using e by (simp add: handleSignUp_def effect_defs initialWorld_def)
  from e ios web show ?thesis by simp
qed

text \<open>
  Claim C1 read for every platform does not hold: on the web a valid form is submitted
  from the initial world and the session user name is still \<^verbatim>\<open>null\<close> afterwards.
\<close>

theorem signUp_web_session_counterexample:
  "username \<lparr>username = ''ann'', email = ''ann@farm.org'', password = ''pw'', agree = True\<rparr> \<noteq> []
   \<and> email \<lparr>username = ''ann'', email = ''ann@farm.org'', password = ''pw'', agree = True\<rparr> \<noteq> []
   \<and> password \<lparr>username = ''ann'', email = ''ann@farm.org'', password = ''pw'', agree = True\<rparr> \<noteq> []
   \<and> test emailRegex (email \<lparr>username = ''ann'', email = ''ann@farm.org'', password = ''pw'', agree = True\<rparr>)
   \<and> agree \<lparr>username = ''ann'', email = ''ann@farm.org'', password = ''pw'', agree = True\<rparr>
   \<and> contextUsername (snd (handleSignUp ''web''
         \<lparr>username = ''ann'', email = ''ann@farm.org'', password = ''pw'', agree = True\<rparr> initialWorld))
       \<noteq> Some ''ann''"
  by (simp add: handleSignUp_def effect_defs initialWorld_def regex_eval)

text \<open>
  Claim C2. When the user name, the email or the password is empty, \<^verbatim>\<open>handleSignUp\<close>
  returns at its first check: the result is \<open>MissingField\<close>, the one notice shown is
  ``Missing Info'', the session user name is unchanged and no route is asked for, also
  when a button of the notice is pressed.
\<close>

theorem signUp_missing_field:
  assumes "username f = [] \<or> email f = [] \<or> password f = []"
  shows "fst (handleSignUp os f w) = Inl MissingField
       \<and> contextUsername (snd (handleSignUp os f w)) = contextUsername w
       \<and> navigation (snd (handleSignUp os f w)) = navigation w
       \<and> notices (snd (handleSignUp os f w)) = notices w @
            [if os = ''web'' then WindowAlert ''Missing Info: Please fill out all fields.''
             else AlertAlert ''Missing Info'' ''Please fill out all fields.'' []]
       \<and> navigation (pressButton t (snd (handleSignUp os f w))) = navigation w"
  using assms by (simp add: handleSignUp_def effect_defs pressButton_def)

theorem signUp_missing_field_witness:
  "fst (handleSignUp ''web'' \<lparr>username = ''ann'', email = [], password = ''pw'', agree = True\<rparr> initialWorld) = Inl MissingField
   \<and> contextUsername (snd (handleSignUp ''web'' \<lparr>username = ''ann'', email = [], password = ''pw'', agree = True\<rparr> initialWorld)) = None
   \<and> navigation (snd (handleSignUp ''web'' \<lparr>username = ''ann'', email = [], password = ''pw'', agree = True\<rparr> initialWorld)) = []"
  using signUp_missing_field [of "\<lparr>username = ''ann'', email = [], password = ''pw'', agree = True\<rparr>" "''web''" initialWorld]
  by (simp add: initialWorld_def)

text \<open>
  Claim C3. When the three fields are filled in and the email is not of the shape
  \<open>local@domain.tld\<close>, the pattern rejects it (the pattern accepts exactly that shape,
  lemma \<open>emailRegex_shape\<close>) and \<^verbatim>\<open>handleSignUp\<close> returns at its second check: the
  result is \<open>InvalidEmail\<close>, the session user name is unchanged and no route is asked
  for.
\<close>

theorem signUp_invalid_email:
  assumes "username f \<noteq> []" "email f \<noteq> []" "password f \<noteq> []"
    and "\<not> email_shape (email f)"
  shows "\<not> test emailRegex (email f)
       \<and> fst (handleSignUp os f w) = Inl InvalidEmail
       \<and> contextUsername (snd (handleSignUp os f w)) = contextUsername w
       \<and> navigation (snd (handleSignUp os f w)) = navigation w
       \<and> navigation (pressButton t (snd (handleSignUp os f w))) = navigation w"
  using assms by (simp add: emailRegex_shape handleSignUp_def effect_defs pressButton_def)

theorem signUp_invalid_email_witness:
  "\<not> email_shape ''ann@farm''
   \<and> fst (handleSignUp ''web'' \<lparr>username = ''ann'', email = ''ann@farm'', password = ''pw'', agree = True\<rparr> initialWorld) = Inl InvalidEmail
   \<and> contextUsername (snd (handleSignUp ''web'' \<lparr>username = ''ann'', email = ''ann@farm'', password = ''pw'', agree = True\<rparr> initialWorld)) = None"
proof -
  let ?f = "\<lparr>username = ''ann'', email = ''ann@farm'', password = ''pw'', agree = True\<rparr>"
  have e: "\<not> email_shape ''ann@farm''"
    unfolding emailRegex_shape [symmetric] by (simp add: regex_eval)
  have "\<not> test emailRegex (email ?f)
       \<and> fst (handleSignUp ''web'' ?f initialWorld) = Inl InvalidEmail
       \<and> contextUsername (snd (handleSignUp ''web'' ?f initialWorld)) = contextUsername initialWorld
       \<and> navigation (snd (handleSignUp ''web'' ?f initialWorld)) = navigation initialWorld
       \<and> navigation (pressButton ''OK'' (snd (handleSignUp ''web'' ?f initialWorld))) = navigation initialWorld"
    by (rule signUp_invalid_email) (simp_all add: e)
  with e show ?thesis by (simp add: initialWorld_def)
qed

text \<open>
  Claim C4. When the three fields are filled in and the email matches the pattern, but
  the terms are not agreed to, \<^verbatim>\<open>handleSignUp\<close> returns at its third check: the result
  is \<open>TermsNotAccepted\<close>, the session user name is unchanged and no route is asked for.
\<close>

theorem signUp_terms:
  assumes "username f \<noteq> []" "email f \<noteq> []" "password f \<noteq> []"
    and "test emailRegex (email f)" and "\<not> agree f"
  shows "fst (handleSignUp os f w) = Inl TermsNotAccepted
       \<and> contextUsername (snd (handleSignUp os f w)) = contextUsername w
       \<and> navigation (snd (handleSignUp os f w)) = navigation w
       \<and> navigation (pressButton t (snd (handleSignUp os f w))) = navigation w"
  using assms by (simp add: handleSignUp_def effect_defs pressButton_def)

theorem signUp_terms_witness:
  "test emailRegex ''ann@farm.org''
   \<and> fst (handleSignUp ''android'' \<lparr>username = ''ann'', email = ''ann@farm.org'', password = ''pw'', agree = False\<rparr> initialWorld) = Inl TermsNotAccepted
   \<and> contextUsername (snd (handleSignUp ''android'' \<lparr>username = ''ann'', email = ''ann@farm.org'', password = ''pw'', agree = False\<rparr> initialWorld)) = None"
proof -
  let ?f = "\<lparr>username = ''ann'', email = ''ann@farm.org'', password = ''pw'', agree = False\<rparr>"
  have e: "test emailRegex ''ann@farm.org''" by (simp add: regex_eval)
  have "fst (handleSignUp ''android'' ?f initialWorld) = Inl TermsNotAccepted
       \<and> contextUsername (snd (handleSignUp ''android'' ?f initialWorld)) = contextUsername initialWorld
       \<and> navigation (snd (handleSignUp ''android'' ?f initialWorld)) = navigation initialWorld
       \<and> navigation (pressButton ''OK'' (snd (handleSignUp ''android'' ?f initialWorld))) = navigation initialWorld"
    by (rule signUp_terms) (simp_all add: regex_eval)
  with e show ?thesis by (simp add: initialWorld_def)
qed

text \<open>
  Claim C5. With a user name and a password that are both not empty, \<^verbatim>\<open>handleLogin\<close>
  succeeds: it shows no notice, sets the session user name to the submitted one and
  resets the navigator to \<^verbatim>\<open>Dashboard\<close>. With an empty user name or password it fails,
  and the session user name and the navigator are as before.
\<close>

theorem login_contract:
  "(username' \<noteq> [] \<and> password' \<noteq> [] \<longrightarrow>
      fst (handleLogin os username' password' w) = Inr ()
      \<and> notices (snd (handleLogin os username' password' w)) = notices w
      \<and> contextUsername (snd (handleLogin os username' password' w)) = Some username'
      \<and> navigation (snd (handleLogin os username' password' w)) =
          navigation w @ [Reset 0 [(''Dashboard'', username')]])
   \<and> (username' = [] \<or> password' = [] \<longrightarrow>
      fst (handleLogin os username' password' w) = Inl LoginError
      \<and> contextUsername (snd (handleLogin os username' password' w)) = contextUsername w
      \<and> navigation (snd (handleLogin os username' password' w)) = navigation w)"
  by (simp add: handleLogin_def effect_defs)

theorem login_contract_witness:
  "fst (handleLogin ''web'' ''ann'' ''pw'' initialWorld) = Inr ()
   \<and> contextUsername (snd (handleLogin ''web'' ''ann'' ''pw'' initialWorld)) = Some ''ann''
   \<and> fst (handleLogin ''web'' ''ann'' [] initialWorld) = Inl LoginError
   \<and> contextUsername (snd (handleLogin ''web'' ''ann'' [] initialWorld)) = None"
  using login_contract [of "''ann''" "''pw''" "''web''" initialWorld]
        login_contract [of "''ann''" "[]" "''web''" initialWorld]
  by (simp add: initialWorld_def)

section \<open>Filter and order of the catalog\<close>

lemmas view_defs =
  view_def filteredLettuces_def Array_filter_def Array_sort_def moduleStore_def
  originalLettuces_ref_def sortBy_def SortCompare_def compareFn_def

lemma lower_names:
  "toLowerCase ''Romaine'' = ''romaine''"
  "toLowerCase ''Butterhead'' = ''butterhead''"
  "toLowerCase ''Oak Leaf'' = ''oak leaf''"
  "toLowerCase ''Cos'' = ''cos''"
  "toLowerCase ''Coming Soon'' = ''coming soon''"
  "toLowerCase ''oak'' = ''oak''"
  "toLowerCase ''OAK'' = ''oak''"
  "toLowerCase [] = []"
  by code_simp+

lemma compare_names:
  "localeCompare ''Butterhead'' ''Oak Leaf'' = - 1"
  "localeCompare ''Romaine'' ''Butterhead'' = 1"
  "localeCompare ''Romaine'' ''Oak Leaf'' = 1"
  by code_simp+

text \<open>
  Claim C6. \<^verbatim>\<open>handleFilterPress\<close> is a function of the state: it takes the mode
  \<open>all\<close> to \<open>az\<close>, \<open>az\<close> to \<open>popular\<close> and \<open>popular\<close> to \<open>all\<close>, and changes
  nothing else; three presses from \<open>all\<close>, so from the initial state, lead back to it.
\<close>

theorem filter_cycle:
  "handleFilterPress (st\<lparr> filter' := ''all'' \<rparr>) = st\<lparr> filter' := ''az'' \<rparr>
   \<and> handleFilterPress (st\<lparr> filter' := ''az'' \<rparr>) = st\<lparr> filter' := ''popular'' \<rparr>
   \<and> handleFilterPress (st\<lparr> filter' := ''popular'' \<rparr>) = st\<lparr> filter' := ''all'' \<rparr>
   \<and> handleFilterPress (handleFilterPress (handleFilterPress (st\<lparr> filter' := ''all'' \<rparr>)))
       = st\<lparr> filter' := ''all'' \<rparr>
   \<and> handleFilterPress (handleFilterPress (handleFilterPress initialSelectionScreen))
       = initialSelectionScreen"
  by (simp add: handleFilterPress_def initialSelectionScreen_def)

text \<open>
  In mode \<open>popular\<close>, on entries that all carry the flag, the order is the popular
  entries in their order, then the others in theirs.
\<close>

lemma insert_popular:
  assumes "popular x = Some True" and "\<forall>y\<in>set ys. popular y \<noteq> None"
  shows "insertSorted (compareFn ''popular'') x ys = x # ys"
proof (cases ys)
  case Nil
  then show ?thesis by simp
next
  case (Cons y ys')
  with assms obtain b where "popular y = Some b" by auto
  with assms(1) Cons show ?thesis
    by (cases b) (simp_all add: SortCompare_def compareFn_def)
qed

lemma insert_unpopular:
  assumes "popular x = Some False"
    and "\<forall>y\<in>set ts. popular y = Some True" and "\<forall>y\<in>set fs. popular y = Some False"
  shows "insertSorted (compareFn ''popular'') x (ts @ fs) = ts @ x # fs"
  using assms(2)
proof (induction ts)
  case Nil
  show ?case
  proof (cases fs)
    case Nil
    then show ?thesis by simp
  next
    case (Cons y fs')
    with assms(3) have "popular y = Some False" by simp
    with assms(1) Cons show ?thesis by (simp add: SortCompare_def compareFn_def)
  qed
next
  case (Cons t ts)
  then have "popular t = Some True" by simp
  with assms(1) Cons show ?case by (simp add: SortCompare_def compareFn_def)
qed

lemma popular_mode_stable:
  assumes "\<forall>x\<in>set xs. popular x \<noteq> None"
  shows "sortBy (compareFn ''popular'') xs =
         filter (\<lambda>x. popular x = Some True) xs @ filter (\<lambda>x. popular x = Some False) xs"
  using assms
proof (induction xs)
  case Nil
  show ?case by (simp add: sortBy_def)
next
  case (Cons x xs)
  let ?ts = "filter (\<lambda>x. popular x = Some True) xs"
  let ?fs = "filter (\<lambda>x. popular x = Some False) xs"
  from Cons have IH: "sortBy (compareFn ''popular'') xs = ?ts @ ?fs" by simp
  from Cons.prems obtain b where b: "popular x = Some b" by auto
  have step: "sortBy (compareFn ''popular'') (x # xs) =
              insertSorted (compareFn ''popular'') x (?ts @ ?fs)"
    using IH by (simp add: sortBy_def)
  show ?case
  proof (cases b)
    case True
    with b have "insertSorted (compareFn ''popular'') x (?ts @ ?fs) = x # ?ts @ ?fs"
      by (intro insert_popular) auto
    with step b True show ?thesis by simp
  next
    case False
    with b have "insertSorted (compareFn ''popular'') x (?ts @ ?fs) = ?ts @ x # ?fs"
      by (intro insert_unpopular) auto
    with step b False show ?thesis by simp
  qed
qed

text \<open>
  Claim C7. For the catalog of the three entries Romaine, Butterhead and Oak Leaf and an
  empty search text, the view in mode \<open>az\<close> is Butterhead, Oak Leaf, Romaine, and the
  view in mode \<open>popular\<close> is Romaine, Oak Leaf, Butterhead: the two popular entries
  first, in the order they have in the catalog, then the other.
\<close>

theorem three_entries_order:
  "view (filteredLettuces \<lparr> searchQuery = [], filter' = ''az'' \<rparr>
           (moduleStore [romaine, butterhead, oakLeaf]))
     = Some [butterhead, oakLeaf, romaine]
   \<and> view (filteredLettuces \<lparr> searchQuery = [], filter' = ''popular'' \<rparr>
           (moduleStore [romaine, butterhead, oakLeaf]))
     = Some [romaine, oakLeaf, butterhead]"
  by (simp add: view_defs romaine_def butterhead_def oakLeaf_def lower_names compare_names)

subsection \<open>What a render leaves in the store\<close>

lemma filteredLettuces_frame:
  assumes "arrays h originalLettuces_ref = Some c" and "originalLettuces_ref < nextRef h"
  shows "\<exists>h'. filteredLettuces st h = Some (nextRef h, h')
           \<and> nextRef h' = Suc (nextRef h)
           \<and> (\<forall>a. a < nextRef h \<longrightarrow> arrays h' a = arrays h a)"
  using assms by (simp add: filteredLettuces_def Array_filter_def Array_sort_def)

lemma renders_frame:
  assumes "arrays h originalLettuces_ref = Some c" and "originalLettuces_ref < nextRef h"
  shows "arrays (renders sts h) originalLettuces_ref = Some c
       \<and> originalLettuces_ref < nextRef (renders sts h)"
  using assms
proof (induction sts arbitrary: h)
  case Nil
  then show ?case by simp
next
  case (Cons st sts)
  from filteredLettuces_frame [OF Cons.prems, of st]
  obtain h' where h': "filteredLettuces st h = Some (nextRef h, h')"
    "nextRef h' = Suc (nextRef h)" "\<forall>a. a < nextRef h \<longrightarrow> arrays h' a = arrays h a"
    by blast
  with Cons.prems have "arrays h' originalLettuces_ref = Some c"
    and "originalLettuces_ref < nextRef h'" by simp_all
  then have "arrays (renders sts h') originalLettuces_ref = Some c
       \<and> originalLettuces_ref < nextRef (renders sts h')"
    by (rule Cons.IH)
  with h' show ?case by simp
qed

text \<open>
  Claim C8. After any history of renders, computing the view for any search text and any
  mode succeeds, returns a reference other than that of \<^verbatim>\<open>originalLettuces\<close>, and the
  array \<^verbatim>\<open>originalLettuces\<close> holds the same entries in the same order before and
  after.
\<close>

theorem original_array_unchanged:
  "\<exists>r h'. filteredLettuces \<lparr> searchQuery = q, filter' = mode \<rparr>
              (renders sts (moduleStore originalLettuces)) = Some (r, h')
          \<and> r \<noteq> originalLettuces_ref
          \<and> arrays h' originalLettuces_ref = Some originalLettuces
          \<and> arrays (renders sts (moduleStore originalLettuces)) originalLettuces_ref
              = Some originalLettuces"
proof -
  let ?h = "renders sts (moduleStore originalLettuces)"
  have "arrays (moduleStore originalLettuces) originalLettuces_ref = Some originalLettuces"
    and "originalLettuces_ref < nextRef (moduleStore originalLettuces)"
    by (simp_all add: moduleStore_def)
  then have inv: "arrays ?h originalLettuces_ref = Some originalLettuces"
    "originalLettuces_ref < nextRef ?h"
    using renders_frame by blast+
  from filteredLettuces_frame [OF inv, of "\<lparr> searchQuery = q, filter' = mode \<rparr>"]
  obtain h' where "filteredLettuces \<lparr> searchQuery = q, filter' = mode \<rparr> ?h = Some (nextRef ?h, h')"
    "\<forall>a. a < nextRef ?h \<longrightarrow> arrays h' a = arrays ?h a"
    by blast
  with inv show ?thesis by auto
qed

text \<open>
  Claim C9. The search text \<open>oak\<close> on the catalog gives the view of the single entry
  Oak Leaf, in every mode; so does the same text in capitals.
\<close>

theorem search_oak:
  "view (filteredLettuces \<lparr> searchQuery = ''oak'', filter' = mode \<rparr>
           (moduleStore originalLettuces))
     = Some [oakLeaf]
   \<and> view (filteredLettuces \<lparr> searchQuery = ''OAK'', filter' = mode \<rparr>
           (moduleStore originalLettuces))
     = Some [oakLeaf]"
  by (simp add: view_defs originalLettuces_def romaine_def butterhead_def oakLeaf_def cos'_def
        comingSoon5_def comingSoon6_def lower_names)

section \<open>Toggles, tooltips and modals\<close>






















end
